theory Spec2Isabelle
  imports Complex_Main
begin

section \<open>Data model\<close>

text \<open>
  A product is a plain JavaScript object. The fields the cart and the catalogue filter
  read are kept; an optional field is an \<open>option\<close>, \<open>None\<close> standing for
  \<open>undefined\<close>/\<open>null\<close>. Identifiers are JavaScript numbers used as integers and
  only compared. Prices and quantities are JavaScript numbers, taken here as exact
  rationals: a quantity need not be whole, since nothing in the cart checks that it is
  (rounding of floating-point sums, and the values NaN and Infinity, are not modelled).
  \<open>id'\<close> is the field \<open>id\<close>.
\<close>

record product =
  id' :: int
  name :: string
  price :: rat
  originalPrice :: "rat option"
  category :: "string option"
  onSale :: bool
  featured :: bool
  stock :: "int option"
  colors :: "string list option"
  sizes :: "string list option"
  selectedColor :: "string option"
  selectedSize :: "string option"

text \<open>A cart entry is the product's fields spread into a new object, plus \<open>quantity\<close>.\<close>

record cart_item = product +
  quantity :: rat

type_synonym cart = "cart_item list"

section \<open>CartContext.js: the cart operations\<close>

text \<open>
  Each operation hands an updater \<open>prevItems \<Rightarrow> newItems\<close> to \<open>setCartItems\<close>; the
  functions below are these updaters, with the previous snapshot as first argument.
\<close>

text \<open>\<open>{ ...product, quantity }\<close>\<close>

definition spread_quantity :: "product \<Rightarrow> rat \<Rightarrow> cart_item" where
  "spread_quantity p q =
     \<lparr>id' = id' p, name = name p, price = price p, originalPrice = originalPrice p,
      category = category p, onSale = onSale p, featured = featured p, stock = stock p,
      colors = colors p, sizes = sizes p, selectedColor = selectedColor p,
      selectedSize = selectedSize p, quantity = q\<rparr>"

definition addToCart :: "cart \<Rightarrow> product \<Rightarrow> rat \<Rightarrow> cart" where
  "addToCart prevItems p qty =
     (case List.find (\<lambda>item. id' item = id' p) prevItems of
        Some existingItem \<Rightarrow>
          map (\<lambda>item. if id' item = id' p
                       then item\<lparr>quantity := quantity item + qty\<rparr>
                       else item) prevItems
      | None \<Rightarrow> prevItems @ [spread_quantity p qty])"

definition removeFromCart :: "cart \<Rightarrow> int \<Rightarrow> cart" where
  "removeFromCart prevItems productId = filter (\<lambda>item. id' item \<noteq> productId) prevItems"

definition updateQuantity :: "cart \<Rightarrow> int \<Rightarrow> rat \<Rightarrow> cart" where
  "updateQuantity prevItems productId qty =
     (if qty \<le> 0 then removeFromCart prevItems productId
      else map (\<lambda>item. if id' item = productId then item\<lparr>quantity := qty\<rparr> else item)
             prevItems)"

definition clearCart :: "cart \<Rightarrow> cart" where
  "clearCart prevItems = []"

text \<open>The aggregate getters: \<open>reduce\<close> is a left fold from \<open>0\<close>.\<close>

definition getTotalItems :: "cart \<Rightarrow> rat" where
  "getTotalItems cartItems = foldl (\<lambda>total item. total + quantity item) 0 cartItems"

definition getTotalPrice :: "cart \<Rightarrow> rat" where
  "getTotalPrice cartItems =
     foldl (\<lambda>total item. total + price item * quantity item) 0 cartItems"

definition isCartEmpty :: "cart \<Rightarrow> bool" where
  "isCartEmpty cartItems \<longleftrightarrow> length cartItems = 0"

subsection \<open>Sequences of operations\<close>

text \<open>
  The public mutations as data, applied one at a time to completion, starting from the
  initial state \<open>useState([])\<close>.
\<close>

datatype cart_op =
    Add product rat
  | Remove int
  | SetQuantity int rat
  | Clear

fun apply_op :: "cart \<Rightarrow> cart_op \<Rightarrow> cart" where
  "apply_op s (Add p q) = addToCart s p q"
| "apply_op s (Remove i) = removeFromCart s i"
| "apply_op s (SetQuantity i q) = updateQuantity s i q"
| "apply_op s Clear = clearCart s"



subsection \<open>Observations on a snapshot\<close>

definition entries_for :: "int \<Rightarrow> cart \<Rightarrow> cart" where
  "entries_for productId items = filter (\<lambda>item. id' item = productId) items"

definition quantity_of :: "int \<Rightarrow> cart \<Rightarrow> rat" where
  "quantity_of productId items = sum_list (map quantity (entries_for productId items))"


section \<open>CartContext.js: the provider and its state hook\<close>

text \<open>
  \<open>const [cartItems, setCartItems] = useState([])\<close>: within one render \<open>cartItems\<close> is
  a constant, and the context value and the getters built in that render close over it.
  A mutator does not touch it: it hands an updater to \<open>setCartItems\<close> and returns. The
  framework keeps the updaters and applies them, in the order they came, when it renders
  the provider next. \<open>rendered\<close> is the \<open>cartItems\<close> of the last render, \<open>pending\<close>
  the updaters handed over since.
\<close>

record provider =
  rendered :: cart
  pending :: "(cart \<Rightarrow> cart) list"

definition mounted :: provider where
  "mounted = \<lparr>rendered = [], pending = []\<rparr>"

definition setCartItems :: "provider \<Rightarrow> (cart \<Rightarrow> cart) \<Rightarrow> provider" where
  "setCartItems pr updater = pr\<lparr>pending := pending pr @ [updater]\<rparr>"

definition render :: "provider \<Rightarrow> provider" where
  "render pr =
     \<lparr>rendered = foldl (\<lambda>items updater. updater items) (rendered pr) (pending pr),
      pending = []\<rparr>"

text \<open>The four mutators as the callers invoke them.\<close>

definition call_addToCart :: "provider \<Rightarrow> product \<Rightarrow> rat \<Rightarrow> provider" where
  "call_addToCart pr p qty = setCartItems pr (\<lambda>prevItems. addToCart prevItems p qty)"

definition call_removeFromCart :: "provider \<Rightarrow> int \<Rightarrow> provider" where
  "call_removeFromCart pr productId =
     setCartItems pr (\<lambda>prevItems. removeFromCart prevItems productId)"

definition call_updateQuantity :: "provider \<Rightarrow> int \<Rightarrow> rat \<Rightarrow> provider" where
  "call_updateQuantity pr productId qty =
     (if qty \<le> 0 then call_removeFromCart pr productId
      else setCartItems pr (\<lambda>prevItems. updateQuantity prevItems productId qty))"

definition call_clearCart :: "provider \<Rightarrow> provider" where
  "call_clearCart pr = setCartItems pr (\<lambda>prevItems. clearCart prevItems)"

fun call :: "provider \<Rightarrow> cart_op \<Rightarrow> provider" where
  "call pr (Add p q) = call_addToCart pr p q"
| "call pr (Remove i) = call_removeFromCart pr i"
| "call pr (SetQuantity i q) = call_updateQuantity pr i q"
| "call pr Clear = call_clearCart pr"

text \<open>What a consumer reads through the context value it holds.\<close>

definition read_cartItems :: "provider \<Rightarrow> cart" where
  "read_cartItems pr = rendered pr"

definition read_getTotalItems :: "provider \<Rightarrow> rat" where
  "read_getTotalItems pr = getTotalItems (rendered pr)"

definition read_getTotalPrice :: "provider \<Rightarrow> rat" where
  "read_getTotalPrice pr = getTotalPrice (rendered pr)"

definition read_isCartEmpty :: "provider \<Rightarrow> bool" where
  "read_isCartEmpty pr = isCartEmpty (rendered pr)"

section \<open>CartContext.js: persistence\<close>

text \<open>
  What a call can raise is a value: \<open>Inl\<close> of the error. \<open>localStorage\<close> is the
  browser's: a slot per key, a write that does not fit the quota raises and changes
  nothing, and a browser that blocks storage raises on every access.
\<close>

datatype js_error = SyntaxError | QuotaExceededError | SecurityError | TypeError







section \<open>CartContext.js: the context value, and ShoppingCart.js reading it\<close>

text \<open>
  The object \<open>value\<close> handed to the provider, key by key in the order of the source.
  Only the getters are called below, so the state and the mutators carry no payload.
\<close>

datatype member =
    State
  | Mutator
  | NumberGetter "cart \<Rightarrow> rat"
  | BooleanGetter "cart \<Rightarrow> bool"

definition context_value :: "(string \<times> member) list" where
  "context_value =
     [(''cartItems'', State),
      (''addToCart'', Mutator),
      (''removeFromCart'', Mutator),
      (''updateQuantity'', Mutator),
      (''clearCart'', Mutator),
      (''getTotalItems'', NumberGetter getTotalItems),
      (''getTotalPrice'', NumberGetter getTotalPrice),
      (''isCartEmpty'', BooleanGetter isCartEmpty)]"

text \<open>
  \<open>const { k } = useCart(); k()\<close>: a key the object lacks destructures to
  \<open>undefined\<close>, and calling \<open>undefined\<close> raises a TypeError.
\<close>

definition call_getter :: "string \<Rightarrow> cart \<Rightarrow> js_error + rat" where
  "call_getter k cartItems =
     (case map_of context_value k of
        Some (NumberGetter f) \<Rightarrow> Inr (f cartItems)
      | _ \<Rightarrow> Inl TypeError)"

record order_summary =
  totalItems :: rat
  itemsTotal :: rat
  originalTotal :: rat
  discount :: rat

text \<open>The four calls at the head of the component \<open>ShoppingCart\<close>, in order.\<close>

definition ShoppingCart :: "cart \<Rightarrow> js_error + order_summary" where
  "ShoppingCart cartItems =
     (case call_getter ''getTotalItems'' cartItems of Inl e \<Rightarrow> Inl e | Inr ti \<Rightarrow>
      case call_getter ''getTotalPrice'' cartItems of Inl e \<Rightarrow> Inl e | Inr tp \<Rightarrow>
      case call_getter ''getOriginalTotalPrice'' cartItems of Inl e \<Rightarrow> Inl e | Inr ot \<Rightarrow>
      case call_getter ''getTotalDiscount'' cartItems of Inl e \<Rightarrow> Inl e | Inr d \<Rightarrow>
        Inr \<lparr>totalItems = ti, itemsTotal = tp, originalTotal = ot, discount = d\<rparr>)"

section \<open>CategoryPage.js: the catalogue filter\<close>

text \<open>
  Strings are byte strings here; \<open>toLowerCase\<close> maps the letters A to Z to a to z and
  leaves every other character alone (case mapping beyond ASCII is not modelled).
\<close>

definition toLowerCase_char :: "char \<Rightarrow> char" where
  "toLowerCase_char c =
     (let n = of_char c :: nat in if 65 \<le> n \<and> n \<le> 90 then char_of (n + 32) else c)"

definition toLowerCase :: "string \<Rightarrow> string" where
  "toLowerCase s = map toLowerCase_char s"

text \<open>
  The callback given to \<open>PRODUCTS.filter\<close>. \<open>!product.category\<close> holds for a category
  that is missing and for the empty string.
\<close>

definition category_filter :: "string \<Rightarrow> product \<Rightarrow> bool" where
  "category_filter categoryName p =
     (if toLowerCase categoryName = ''sale & clearance'' \<or>
         toLowerCase categoryName = ''sale-clearance'' then onSale p = True
      else if toLowerCase categoryName = ''featured'' then featured p = True
      else if toLowerCase categoryName = ''cyber days'' \<or>
              toLowerCase categoryName = ''cyber-days''
           then onSale p = True \<or> featured p = True
      else if toLowerCase categoryName = ''black friday'' \<or>
              toLowerCase categoryName = ''black-friday'' then onSale p = True
      else if toLowerCase categoryName = ''work boots & shoes'' \<or>
              toLowerCase categoryName = ''work-boots-and-shoes''
           then category p = Some ''Work Boots & Shoes''
      else (case category p of
              None \<Rightarrow> False
            | Some c \<Rightarrow>
                if c = [] then False else toLowerCase c = toLowerCase categoryName))"

text \<open>\<open>PRODUCTS\<close> comes from \<open>utils/constants\<close> and is a parameter.\<close>

definition categoryProducts :: "product list \<Rightarrow> string \<Rightarrow> product list" where
  "categoryProducts PRODUCTS categoryName = filter (category_filter categoryName) PRODUCTS"

text \<open>The lower-cased selectors of the five special rules; every other one is rule 6.\<close>

definition special_selector :: "string \<Rightarrow> bool" where
  "special_selector s \<longleftrightarrow>
     s \<in> set [''sale & clearance'', ''sale-clearance'', ''featured'', ''cyber days'',
              ''cyber-days'', ''black friday'', ''black-friday'', ''work boots & shoes'',
              ''work-boots-and-shoes'']"

section \<open>Sample data\<close>



definition boot :: product where
  "boot = \<lparr>id' = 5, name = ''Boot'', price = 10, originalPrice = Some 12,
            category = Some ''Work Boots & Shoes'', onSale = True, featured = False,
            stock = Some 3, colors = Some [''black'', ''tan''], sizes = None,
            selectedColor = Some ''black'', selectedSize = None\<rparr>"

definition glove :: product where
  "glove = \<lparr>id' = 7, name = ''Glove'', price = 4, originalPrice = None,
             category = Some ''Accessories'', onSale = False, featured = True,
             stock = None, colors = None, sizes = None,
             selectedColor = None, selectedSize = None\<rparr>"



section \<open>Properties of the cart operations\<close>

lemma spread_quantity_sel [simp]:
  "id' (spread_quantity p q) = id' p"
  "quantity (spread_quantity p q) = q"
  "price (spread_quantity p q) = price p"
  "selectedColor (spread_quantity p q) = selectedColor p"
  "selectedSize (spread_quantity p q) = selectedSize p"
  by (simp_all add: spread_quantity_def)

text \<open>
  C5: \<open>updateQuantity\<close> with a quantity \<open>\<le> 0\<close> yields the snapshot that
  \<open>removeFromCart\<close> yields; with a quantity \<open>> 0\<close> the snapshot keeps its length and
  every position: an entry for \<open>productId\<close> has its quantity replaced by the new one
  and nothing else, every other entry is untouched.
\<close>

theorem updateQuantity_remove_or_replace:
  "(qty \<le> 0 \<longrightarrow> updateQuantity s productId qty = removeFromCart s productId) \<and>
   (0 < qty \<longrightarrow>
      length (updateQuantity s productId qty) = length s \<and>
      (\<forall>i < length s.
         updateQuantity s productId qty ! i =
           (if id' (s ! i) = productId then (s ! i)\<lparr>quantity := qty\<rparr> else s ! i)))"
  by (simp add: updateQuantity_def)

theorem updateQuantity_remove_or_replace_witness:
  "updateQuantity [spread_quantity boot 2, spread_quantity glove 1] 7 0
     = removeFromCart [spread_quantity boot 2, spread_quantity glove 1] 7 \<and>
   updateQuantity [spread_quantity boot 2, spread_quantity glove 1] 7 0
     = [spread_quantity boot 2] \<and>
   updateQuantity [spread_quantity boot 2, spread_quantity glove 1] 7 4
     = [spread_quantity boot 2, spread_quantity glove 4]"
proof -
  let ?s = "[spread_quantity boot 2, spread_quantity glove 1]"
  have le: "(0::rat) \<le> 0" and pos: "(0::rat) < 4" by simp_all
  from updateQuantity_remove_or_replace [of 0 ?s 7] le
  have r: "updateQuantity ?s 7 0 = removeFromCart ?s 7" by blast
  have r': "removeFromCart ?s 7 = [spread_quantity boot 2]"
    by (simp add: removeFromCart_def boot_def glove_def)
  from updateQuantity_remove_or_replace [of 4 ?s 7] pos
  have len: "length (updateQuantity ?s 7 4) = 2"
    and at: "\<forall>i < 2. updateQuantity ?s 7 4 ! i =
           (if id' (?s ! i) = 7 then (?s ! i)\<lparr>quantity := 4\<rparr> else ?s ! i)"
    by simp_all
  from at have a0: "updateQuantity ?s 7 4 ! 0 = spread_quantity boot 2"
    by (simp add: boot_def)
  from at have a1: "updateQuantity ?s 7 4 ! 1 = spread_quantity glove 4"
    by (simp add: glove_def spread_quantity_def)
  have "updateQuantity ?s 7 4 = [spread_quantity boot 2, spread_quantity glove 4]"
    using len a0 a1 by (intro nth_equalityI) (auto simp: less_Suc_eq numeral_2_eq_2)
  with r r' show ?thesis by simp
qed

text \<open>
  C10: \<open>updateQuantity\<close> with a quantity \<open>> 0\<close> for an identifier that no entry has
  returns the snapshot as it was: no entry is created and none is changed.
\<close>

theorem updateQuantity_absent_unchanged:
  assumes "0 < qty" and "\<forall>item \<in> set s. id' item \<noteq> productId"
  shows "updateQuantity s productId qty = s"
  using assms by (simp add: updateQuantity_def map_idI)

theorem updateQuantity_absent_unchanged_witness:
  "updateQuantity [spread_quantity boot 2, spread_quantity glove 1] 9 3
     = [spread_quantity boot 2, spread_quantity glove 1]"
proof -
  have pos: "(0::rat) < 3" by simp
  have absent: "\<forall>item \<in> set [spread_quantity boot 2, spread_quantity glove 1]. id' item \<noteq> 9"
    by (simp add: boot_def glove_def)
  from updateQuantity_absent_unchanged [OF pos absent] show ?thesis .
qed

subsection \<open>Adding the same product twice\<close>

lemma find_id_None:
  "List.find (\<lambda>item. id' item = i) s = None \<longleftrightarrow> entries_for i s = []"
  by (auto simp: find_None_iff entries_for_def filter_empty_conv)

lemma entries_for_map_quantity:
  "entries_for i (map (\<lambda>item. if id' item = i then item\<lparr>quantity := g item\<rparr> else item) s)
     = map (\<lambda>item. item\<lparr>quantity := g item\<rparr>) (entries_for i s)"
  by (induction s) (simp_all add: entries_for_def)

lemma entries_for_addToCart:
  "entries_for (id' p) (addToCart s p m) =
     (if entries_for (id' p) s = [] then [spread_quantity p m]
      else map (\<lambda>item. item\<lparr>quantity := quantity item + m\<rparr>) (entries_for (id' p) s))"
proof (cases "List.find (\<lambda>item. id' item = id' p) s")
  case None
  then have "entries_for (id' p) s = []" by (simp add: find_id_None)
  with None show ?thesis by (simp add: addToCart_def entries_for_def)
next
  case (Some e)
  then have "entries_for (id' p) s \<noteq> []" using find_id_None [of "id' p" s] by simp
  with Some show ?thesis by (simp add: addToCart_def entries_for_map_quantity)
qed

text \<open>
  C1, as stated, is false on a snapshot that already holds the product: the two adds
  increment the quantity that is there. Starting from one boot, adding one and one more
  leaves a single entry of quantity 3, not \<open>1 + 1\<close>.
\<close>

theorem addToCart_twice_counterexample:
  "map quantity
     (entries_for (id' boot) (addToCart (addToCart [spread_quantity boot 1] boot 1) boot 1))
     = [3] \<and> (3::rat) \<noteq> 1 + 1"
  by (simp add: addToCart_def entries_for_def)

text \<open>
  C1, amended: on a snapshot with at most one entry for the product's id, \<open>add(P, m)\<close>
  followed by \<open>add(P', n)\<close> for the same id leaves exactly one entry for that id; its
  quantity is the quantity the snapshot held for the id (0 when it held none) plus
  \<open>m + n\<close>; it is the entry as it was after the first add with only the quantity
  changed, so that price, selectedColor and selectedSize are those after the first add
  whatever the second call supplies. On a snapshot without the id the first add creates
  the entry from \<open>P\<close> and the final quantity is \<open>m + n\<close> (a snapshot that holds the id
  with quantity 0 gives \<open>m + n\<close> as well).
\<close>

theorem addToCart_twice_merges:
  assumes one: "length (entries_for (id' p) s) \<le> 1" and same: "id' p' = id' p"
  shows "\<exists>e1 e2.
           entries_for (id' p) (addToCart s p m) = [e1] \<and>
           entries_for (id' p) (addToCart (addToCart s p m) p' n) = [e2] \<and>
           quantity e1 = quantity_of (id' p) s + m \<and>
           quantity e2 = quantity_of (id' p) s + m + n \<and>
           e2 = e1\<lparr>quantity := quantity e2\<rparr> \<and>
           price e2 = price e1 \<and>
           selectedColor e2 = selectedColor e1 \<and>
           selectedSize e2 = selectedSize e1 \<and>
           (entries_for (id' p) s = [] \<longrightarrow>
              e1 = spread_quantity p m \<and> quantity e2 = m + n)"
proof (cases "entries_for (id' p) s")
  case Nil
  have first: "entries_for (id' p) (addToCart s p m) = [spread_quantity p m]"
    using Nil by (simp add: entries_for_addToCart)
  have "entries_for (id' p') (addToCart (addToCart s p m) p' n)
          = [(spread_quantity p m)\<lparr>quantity := m + n\<rparr>]"
    unfolding entries_for_addToCart [of p' "addToCart s p m" n] using first same by simp
  with first Nil same show ?thesis by (simp add: quantity_of_def)
next
  case (Cons e0 rest)
  with one have s0: "entries_for (id' p) s = [e0]" by simp
  have first: "entries_for (id' p) (addToCart s p m) = [e0\<lparr>quantity := quantity e0 + m\<rparr>]"
    using s0 by (simp add: entries_for_addToCart)
  have "entries_for (id' p') (addToCart (addToCart s p m) p' n)
          = [e0\<lparr>quantity := quantity e0 + m + n\<rparr>]"
    unfolding entries_for_addToCart [of p' "addToCart s p m" n] using first same by simp
  with first s0 same show ?thesis by (simp add: quantity_of_def)
qed

theorem addToCart_twice_merges_witness:
  "entries_for 5
     (addToCart (addToCart [spread_quantity glove 1] boot 2)
        (boot\<lparr>price := 99, selectedColor := Some ''tan''\<rparr>) 3)
     = [spread_quantity boot 5]"
proof -
  let ?s = "[spread_quantity glove 1]"
  let ?p' = "boot\<lparr>price := 99, selectedColor := Some ''tan''\<rparr>"
  have id5: "id' boot = 5" by (simp add: boot_def)
  have none: "entries_for (id' boot) ?s = []"
    by (simp add: entries_for_def boot_def glove_def)
  then have one: "length (entries_for (id' boot) ?s) \<le> 1" by simp
  have same: "id' ?p' = id' boot" by simp
  from addToCart_twice_merges [OF one same, of 2 3] none
  obtain e1 e2 where
    e2: "entries_for (id' boot) (addToCart (addToCart ?s boot 2) ?p' 3) = [e2]"
    and q: "quantity e2 = 2 + 3"
    and upd: "e2 = e1\<lparr>quantity := quantity e2\<rparr>"
    and e1: "e1 = spread_quantity boot 2"
    by blast
  from upd q e1 have "e2 = spread_quantity boot 5" by (simp add: spread_quantity_def)
  with e2 id5 show ?thesis by simp
qed

subsection \<open>Quantities of reachable snapshots\<close>









section \<open>What a read observes after a mutating call\<close>

lemma rendered_call: "rendered (call pr op) = rendered pr"
  by (cases op)
     (simp_all add: call_addToCart_def call_removeFromCart_def call_updateQuantity_def
        call_clearCart_def setCartItems_def)

lemma pending_call:
  "\<exists>updater. pending (call pr op) = pending pr @ [updater] \<and>
             (\<forall>items. updater items = apply_op items op)"
  by (cases op)
     (auto simp add: call_addToCart_def call_removeFromCart_def call_updateQuantity_def
        call_clearCart_def setCartItems_def updateQuantity_def)

text \<open>
  C4, as stated, is false: a read made right after a mutating call has returned observes
  the state from before the call. On the freshly mounted provider, after
  \<open>addToCart(boot, 2)\<close> has returned the snapshot read is still empty and
  \<open>getTotalItems()\<close> still gives 0, while the post-mutation snapshot has 2 items.
\<close>

theorem read_after_call_counterexample:
  "read_cartItems (call mounted (Add boot 2)) = [] \<and>
   read_getTotalItems (call mounted (Add boot 2)) = 0 \<and>
   getTotalItems (apply_op (read_cartItems mounted) (Add boot 2)) = 2"
  by (simp add: read_getTotalItems_def read_cartItems_def mounted_def call_addToCart_def
        setCartItems_def getTotalItems_def addToCart_def)

text \<open>
  C4, amended: a mutating cart call (add, remove, setQuantity, clear) hands its update to
  the framework and returns; a read of the snapshot or of an aggregate made right after
  the call has returned observes the same state as before the call. The post-mutation
  state is observed after the next render of the provider: the snapshot read then is the
  one the mutation makes of the snapshot that a render without the call would have shown.
\<close>

theorem read_after_call_is_stale:
  "read_cartItems (call pr op) = read_cartItems pr \<and>
   read_getTotalItems (call pr op) = read_getTotalItems pr \<and>
   read_getTotalPrice (call pr op) = read_getTotalPrice pr \<and>
   read_isCartEmpty (call pr op) = read_isCartEmpty pr \<and>
   read_cartItems (render (call pr op)) = apply_op (read_cartItems (render pr)) op"
proof -
  obtain updater where p: "pending (call pr op) = pending pr @ [updater]"
    and u: "\<And>items. updater items = apply_op items op"
    using pending_call [of pr op] by blast
  have "rendered (render (call pr op)) = apply_op (rendered (render pr)) op"
    by (simp add: render_def p u rendered_call)
  then show ?thesis
    by (simp add: read_cartItems_def read_getTotalItems_def read_getTotalPrice_def
          read_isCartEmpty_def rendered_call)
qed

section \<open>Properties of the persistence effects\<close>





section \<open>The aggregates that ShoppingCart.js asks for\<close>

text \<open>
  C2: the context value has no member \<open>getOriginalTotalPrice\<close> and no member
  \<open>getTotalDiscount\<close>, so the component \<open>ShoppingCart\<close>, which destructures and calls
  both, raises a TypeError on every cart instead of obtaining the original total and
  the discount.
\<close>

theorem ShoppingCart_getters_missing:
  "map_of context_value ''getOriginalTotalPrice'' = None \<and>
   map_of context_value ''getTotalDiscount'' = None \<and>
   ShoppingCart cartItems = Inl TypeError"
  by (simp add: ShoppingCart_def call_getter_def context_value_def)

section \<open>Properties of the catalogue filter\<close>

lemma category_filter_cong:
  "toLowerCase s1 = toLowerCase s2 \<Longrightarrow> category_filter s1 = category_filter s2"
  by (rule ext) (auto simp: category_filter_def split: option.splits)

lemma category_filter_default:
  "\<not> special_selector (toLowerCase sel) \<Longrightarrow>
     category_filter sel p \<longleftrightarrow>
       (case category p of None \<Rightarrow> False
        | Some c \<Rightarrow> c \<noteq> [] \<and> toLowerCase c = toLowerCase sel)"
  by (auto simp: category_filter_def special_selector_def split: option.splits)

text \<open>
  C8: for a selector whose lower-cased form is \<open>work boots & shoes\<close> or
  \<open>work-boots-and-shoes\<close>, the filter returns, in catalogue order, exactly the products
  whose category is the literal string \<open>Work Boots & Shoes\<close>, compared as it is.
\<close>

theorem work_boots_exact_category:
  assumes "toLowerCase categoryName = ''work boots & shoes'' \<or>
           toLowerCase categoryName = ''work-boots-and-shoes''"
  shows "categoryProducts PRODUCTS categoryName =
           filter (\<lambda>p. category p = Some ''Work Boots & Shoes'') PRODUCTS"
proof -
  from assms
  have "category_filter categoryName = (\<lambda>p. category p = Some ''Work Boots & Shoes'')"
    by (auto simp: category_filter_def fun_eq_iff)
  then show ?thesis by (simp add: categoryProducts_def)
qed

theorem work_boots_exact_category_witness:
  "categoryProducts [boot, glove, boot\<lparr>category := Some ''work boots & shoes''\<rparr>]
     ''WORK-boots-AND-shoes'' = [boot]"
proof -
  have sel: "toLowerCase ''WORK-boots-AND-shoes'' = ''work boots & shoes'' \<or>
             toLowerCase ''WORK-boots-AND-shoes'' = ''work-boots-and-shoes''"
    by code_simp
  from work_boots_exact_category [OF sel] show ?thesis
    by (simp add: boot_def glove_def)
qed

text \<open>
  C9, as stated, is false in its last part: under rule 6 a product whose category is
  defined but is the empty string is not matched by the selector that equals it, the
  empty selector, because \<open>!product.category\<close> rejects the empty string.
\<close>

theorem selector_case_counterexample:
  "category (glove\<lparr>category := Some ''''\<rparr>) = Some '''' \<and>
   toLowerCase '''' = toLowerCase '''' \<and>
   \<not> special_selector (toLowerCase '''') \<and>
   categoryProducts [glove\<lparr>category := Some ''''\<rparr>] '''' = []"
  by (simp add: categoryProducts_def category_filter_def special_selector_def toLowerCase_def)

text \<open>
  C9, amended: two selectors with the same lower-cased form give the same output on every
  catalogue; \<open>Sale & Clearance\<close> and \<open>sale-clearance\<close> give the same output; and for a
  selector of rule 6 the output is, in catalogue order, exactly the products whose
  category is defined, is not the empty string, and equals the selector up to letter
  case.
\<close>

theorem selector_case_insensitive:
  "(toLowerCase s1 = toLowerCase s2 \<longrightarrow> categoryProducts C s1 = categoryProducts C s2) \<and>
   categoryProducts C ''Sale & Clearance'' = categoryProducts C ''sale-clearance'' \<and>
   (\<not> special_selector (toLowerCase sel) \<longrightarrow>
      categoryProducts C sel =
        filter (\<lambda>p. case category p of None \<Rightarrow> False
                    | Some c \<Rightarrow> c \<noteq> [] \<and> toLowerCase c = toLowerCase sel) C)"
proof (intro conjI impI)
  assume "toLowerCase s1 = toLowerCase s2"
  then have "category_filter s1 = category_filter s2" by (rule category_filter_cong)
  then show "categoryProducts C s1 = categoryProducts C s2"
    by (simp add: categoryProducts_def)
next
  have l1: "toLowerCase ''Sale & Clearance'' = ''sale & clearance''" by code_simp
  have l2: "toLowerCase ''sale-clearance'' = ''sale-clearance''" by code_simp
  have "category_filter ''Sale & Clearance'' = category_filter ''sale-clearance''"
    by (rule ext) (simp add: category_filter_def l1 l2)
  then show "categoryProducts C ''Sale & Clearance'' = categoryProducts C ''sale-clearance''"
    by (simp add: categoryProducts_def)
next
  assume "\<not> special_selector (toLowerCase sel)"
  then have "category_filter sel =
     (\<lambda>p. case category p of None \<Rightarrow> False
          | Some c \<Rightarrow> c \<noteq> [] \<and> toLowerCase c = toLowerCase sel)"
    by (intro ext) (rule category_filter_default)
  then show "categoryProducts C sel =
        filter (\<lambda>p. case category p of None \<Rightarrow> False
                    | Some c \<Rightarrow> c \<noteq> [] \<and> toLowerCase c = toLowerCase sel) C"
    by (simp add: categoryProducts_def)
qed

theorem selector_case_insensitive_witness:
  "categoryProducts [boot, glove] ''FEATURED'' = categoryProducts [boot, glove] ''Featured'' \<and>
   categoryProducts [boot, glove] ''Sale & Clearance''
     = categoryProducts [boot, glove] ''sale-clearance'' \<and>
   categoryProducts [boot, glove] ''ACCESSORIES'' = [glove]"
proof -
  have same: "toLowerCase ''FEATURED'' = toLowerCase ''Featured''" by code_simp
  have acc: "toLowerCase ''ACCESSORIES'' = ''accessories''" by code_simp
  have wb: "toLowerCase ''Work Boots & Shoes'' = ''work boots & shoes''" by code_simp
  have acc': "toLowerCase ''Accessories'' = ''accessories''" by code_simp
  have dflt: "\<not> special_selector (toLowerCase ''ACCESSORIES'')"
    by (simp add: acc special_selector_def)
  note inst = selector_case_insensitive
                [of "''FEATURED''" "''Featured''" "[boot, glove]" "''ACCESSORIES''"]
  from inst same
  have a: "categoryProducts [boot, glove] ''FEATURED''
             = categoryProducts [boot, glove] ''Featured''"
    by blast
  from inst
  have b: "categoryProducts [boot, glove] ''Sale & Clearance''
             = categoryProducts [boot, glove] ''sale-clearance''"
    by blast
  from inst dflt
  have "categoryProducts [boot, glove] ''ACCESSORIES'' =
          filter (\<lambda>p. case category p of None \<Rightarrow> False
                      | Some c \<Rightarrow> c \<noteq> [] \<and> toLowerCase c = toLowerCase ''ACCESSORIES'')
            [boot, glove]"
    by blast
  then have c: "categoryProducts [boot, glove] ''ACCESSORIES'' = [glove]"
    by (simp add: boot_def glove_def acc acc' wb)
  from a b c show ?thesis by simp
qed

end
